theory Spec2Isabelle
  imports Complex_Main
begin

section \<open>JavaScript primitives used by the flip bot\<close>

text \<open>
  The program is TypeScript running on a JavaScript engine. Strings are modelled as
  \<open>string\<close> (code units below 256), array and string indices as \<open>int\<close>, since the
  source computes them with subtraction and the library functions clamp them, and
  the result of \<open>parseInt\<close> as an integer or \<open>NaN\<close>.
\<close>

datatype number = NaN | Num int

text \<open>\<open>String.prototype.substring(start, end)\<close>: both indices are clamped to
  \<open>[0, length]\<close> and swapped when \<open>start > end\<close>.\<close>

definition substring :: "string \<Rightarrow> int \<Rightarrow> int \<Rightarrow> string" where
  "substring s start stop =
     (let len = int (length s);
          finalStart = min (max start 0) len;
          finalEnd = min (max stop 0) len;
          lo = min finalStart finalEnd;
          hi = max finalStart finalEnd
      in take (nat (hi - lo)) (drop (nat lo) s))"

text \<open>\<open>substring(start)\<close> with the end omitted runs to the end of the string.\<close>

definition substring_from :: "string \<Rightarrow> int \<Rightarrow> string" where
  "substring_from s start = substring s start (int (length s))"

text \<open>\<open>Array.prototype.slice(start, end)\<close>: a negative index counts from the end,
  both are clamped to \<open>[0, length]\<close>, and an empty range gives the empty array.\<close>

definition slice :: "'a list \<Rightarrow> int \<Rightarrow> int \<Rightarrow> 'a list" where
  "slice xs start stop =
     (let len = int (length xs);
          k = (if start < 0 then max (len + start) 0 else min start len);
          final = (if stop < 0 then max (len + stop) 0 else min stop len)
      in take (nat (final - k)) (drop (nat k) xs))"

definition slice_from :: "'a list \<Rightarrow> int \<Rightarrow> 'a list" where
  "slice_from xs start = slice xs start (int (length xs))"

text \<open>\<open>Array.prototype.indexOf\<close>: the first position of the element, or \<open>-1\<close>.\<close>

fun indexOf :: "'a list \<Rightarrow> 'a \<Rightarrow> int" where
  "indexOf [] k = - 1"
| "indexOf (h # t) k =
     (if h = k then 0 else (let i = indexOf t k in if i < 0 then - 1 else i + 1))"

text \<open>The remainder operator \<open>%\<close> truncates towards zero: the result has the sign of
  the dividend.\<close>

definition js_rem :: "int \<Rightarrow> int \<Rightarrow> int" where
  "js_rem a b = sgn a * (\<bar>a\<bar> mod \<bar>b\<bar>)"

text \<open>The white space that \<open>parseInt\<close> skips, among the code units below 256.\<close>

definition isWhiteSpace :: "char \<Rightarrow> bool" where
  "isWhiteSpace c =
     (let n = (of_char c :: nat) in (9 \<le> n \<and> n \<le> 13) \<or> n = 32 \<or> n = 160)"

definition digit16 :: "char \<Rightarrow> nat option" where
  "digit16 c =
     (let n = (of_char c :: nat) in
        if 48 \<le> n \<and> n \<le> 57 then Some (n - 48)
        else if 97 \<le> n \<and> n \<le> 102 then Some (n - 87)
        else if 65 \<le> n \<and> n \<le> 70 then Some (n - 55)
        else None)"

definition radix16 :: "string \<Rightarrow> nat" where
  "radix16 Z = foldl (\<lambda>a c. case digit16 c of Some d \<Rightarrow> 16 * a + d | None \<Rightarrow> a) 0 Z"

text \<open>\<open>parseInt(string, 16)\<close>: skip leading white space, read a sign, skip a
  \<open>0x\<close> prefix, read the longest run of hexadecimal digits; no digit gives \<open>NaN\<close>.\<close>

definition parseInt16 :: "string \<Rightarrow> number" where
  "parseInt16 inputString =
     (let S = dropWhile isWhiteSpace inputString;
          sign = (if take 1 S = ''-'' then - 1 else 1);
          S1 = (if take 1 S = ''+'' \<or> take 1 S = ''-'' then drop 1 S else S);
          S2 = (if take 2 S1 = ''0x'' \<or> take 2 S1 = ''0X'' then drop 2 S1 else S1);
          Z = takeWhile (\<lambda>c. digit16 c \<noteq> None) S2
      in if Z = [] then NaN else Num (sign * int (radix16 Z)))"

section \<open>utils.ts: the tile decoder\<close>

text \<open>The enum \<open>Powerup\<close> is a number at run time: \<open>None = 0\<close>, \<open>Multiplier = 1\<close>.\<close>

definition Powerup_None :: number where
  "Powerup_None = Num 0"

definition Powerup_Multiplier :: number where
  "Powerup_Multiplier = Num 1"

text \<open>The interface \<open>Tile\<close>. The fields \<open>x\<close> and \<open>y\<close> are named \<open>tile_x\<close> and
  \<open>tile_y\<close>. The field \<open>powerup\<close> holds whatever number \<open>parseInt\<close> returned.\<close>

record Tile =
  tile_x :: int
  tile_y :: int
  address :: string
  powerup :: number
  powerupValue :: number
  team :: number

text \<open>The model of a tile entity as \<open>parseTileModel\<close> reads it: the value of the
  field \<open>flipped\<close> (a string; \<open>None\<close> when the model has no such field) and the
  values of the optional fields \<open>x\<close> and \<open>y\<close>.\<close>

record TileModel =
  model_flipped :: "string option"
  model_x :: "int option"
  model_y :: "int option"

datatype error = TypeError

definition maskAddress :: "string \<Rightarrow> string" where
  "maskAddress addr =
     (let trimmed = dropWhile (\<lambda>c. c = CHR ''0'') (substring_from addr 2)
      in ''0x'' @ substring trimmed 0 (int (length trimmed) - 4))"

text \<open>\<open>parseTileModel(model, hashedKeys)\<close>. The table \<open>TILE_HASHES\<close> of
  \<open>constants.ts\<close> is a parameter. Reading \<open>model.flipped.value\<close> of a model without
  the field throws a \<open>TypeError\<close>; nothing else in the function throws.\<close>

definition parseTileModel :: "string list \<Rightarrow> TileModel \<Rightarrow> string option \<Rightarrow> error + Tile" where
  "parseTileModel TILE_HASHES model hashedKeys =
     (case model_flipped model of
        None \<Rightarrow> Inl TypeError
      | Some packedFlipped \<Rightarrow>
          (let len = int (length packedFlipped);
               addr = (if packedFlipped \<noteq> ''0x0'' then maskAddress packedFlipped else ''0x0'');
               pw = (if addr \<noteq> ''0x0''
                     then parseInt16 (substring packedFlipped (len - 4) (len - 3))
                     else Powerup_None);
               pv = (if addr \<noteq> ''0x0''
                     then parseInt16 (substring packedFlipped (len - 3) (len - 1))
                     else Num 0);
               tm = (if addr \<noteq> ''0x0''
                     then parseInt16 (substring packedFlipped (len - 1) len)
                     else Num 0);
               idx = (case hashedKeys of None \<Rightarrow> - 1 | Some k \<Rightarrow> indexOf TILE_HASHES k);
               x = (case model_x model of
                      Some v \<Rightarrow> v
                    | None \<Rightarrow> \<lfloor>real_of_int idx / 256\<rfloor>);
               y = (case model_y model of
                      Some v \<Rightarrow> v
                    | None \<Rightarrow> js_rem idx 256)
           in Inr \<lparr>tile_x = x, tile_y = y, address = addr, powerup = pw,
                   powerupValue = pv, team = tm\<rparr>))"

section \<open>App.tsx: the state of the component\<close>

text \<open>The entries of \<open>flipHistory\<close>; the optional fields \<open>powerup\<close> and
  \<open>powerupValue\<close> are named \<open>hist_powerup\<close> and \<open>hist_powerupValue\<close>.\<close>

record FlipRecord =
  timestamp :: int
  success :: bool
  hist_powerup :: "number option"
  hist_powerupValue :: "number option"

record PowerupStats =
  count :: nat
  powerup_values :: "number list"

text \<open>The interface \<open>FlipMetrics\<close>. The counters start at zero and grow by array
  lengths; the average is a JavaScript number, modelled as a real.\<close>

record FlipMetrics =
  totalFlips :: nat
  successfulFlips :: nat
  failedFlips :: nat
  averageResponseTime :: real
  powerups :: "number \<rightharpoonup> PowerupStats"
  flipHistory :: "FlipRecord list"

record TilePositions =
  pending :: "(int \<times> int) list"
  flipped :: "(int \<times> int) list"

record TxLog =
  hash :: string
  tx_timestamp :: int

text \<open>The state cells of the component that the pipeline writes. The settings
  (\<open>account\<close>, \<open>chunkSize\<close>, \<open>executionDelay\<close>, \<open>sampleFactor\<close>) are read from the
  closure of each callback and are parameters of the functions below.\<close>

record AppState =
  pendingFlips :: "(int \<times> int) list"
  txLogs :: "TxLog list"
  metrics :: FlipMetrics
  tilePositions :: TilePositions
  entityUpdateRate :: "real list"
  lastUpdateTimestamp :: int

definition initialMetrics :: FlipMetrics where
  "initialMetrics =
     \<lparr>totalFlips = 0, successfulFlips = 0, failedFlips = 0, averageResponseTime = 0,
      powerups = [Powerup_None \<mapsto> \<lparr>count = 0, powerup_values = []\<rparr>,
                  Powerup_Multiplier \<mapsto> \<lparr>count = 0, powerup_values = []\<rparr>],
      flipHistory = []\<rparr>"

text \<open>The initial state; \<open>startup\<close> is the reading of \<open>Date.now()\<close> at the first
  render.\<close>

definition initialState :: "int \<Rightarrow> AppState" where
  "initialState startup =
     \<lparr>pendingFlips = [], txLogs = [], metrics = initialMetrics,
      tilePositions = \<lparr>pending = [], flipped = []\<rparr>,
      entityUpdateRate = [], lastUpdateTimestamp = startup\<rparr>"

subsection \<open>The update-rate interval\<close>

text \<open>The callback of \<open>setInterval(..., 1000)\<close>; \<open>now\<close> is its reading of
  \<open>Date.now()\<close>.\<close>

definition updateRateTick :: "int \<Rightarrow> AppState \<Rightarrow> AppState" where
  "updateRateTick now s =
     (let timeDiff = now - lastUpdateTimestamp s;
          s1 = (if timeDiff > 0
                then s\<lparr>entityUpdateRate :=
                         slice_from (entityUpdateRate s) (- 29) @ [1000 / real_of_int timeDiff]\<rparr>
                else s)
      in s1\<lparr>lastUpdateTimestamp := now\<rparr>)"

subsection \<open>handleEntityUpdated\<close>

text \<open>One event of the feed with what the handler reads from its environment:
  the key, the tile model of the entity (if it has one), the two readings of
  \<open>Date.now()\<close> (at entry, and inside the metrics update) and the value of
  \<open>Math.random()\<close>.\<close>

record UpdateEvent =
  hashedKeys :: string
  tileModel :: "TileModel option"
  eventTime :: int
  recordTime :: int
  random :: real

text \<open>The metrics update for a tile that carries the local address.\<close>

definition recordOwnTile :: "Tile \<Rightarrow> int \<Rightarrow> FlipMetrics \<Rightarrow> FlipMetrics" where
  "recordOwnTile tile now prev =
     (let pws = (if powerup tile \<noteq> Powerup_None
                 then (powerups prev)(powerup tile \<mapsto>
                        \<lparr>count = (case powerups prev (powerup tile) of
                                    Some st \<Rightarrow> count st | None \<Rightarrow> 0) + 1,
                         powerup_values = (case powerups prev (powerup tile) of
                                    Some st \<Rightarrow> powerup_values st | None \<Rightarrow> [])
                                  @ [powerupValue tile]\<rparr>)
                 else powerups prev)
      in prev\<lparr>flipHistory :=
                 slice_from (flipHistory prev @
                   [\<lparr>timestamp = now, success = True, hist_powerup = Some (powerup tile),
                     hist_powerupValue = Some (powerupValue tile)\<rparr>]) (- 100),
               powerups := pws\<rparr>)"

text \<open>\<open>handleEntityUpdated\<close>, with the \<open>account\<close> (its address, if connected) and
  the \<open>sampleFactor\<close> of its closure. An exception of \<open>parseTileModel\<close> rejects the
  promise of the handler after the timestamp has been set.\<close>

definition handleEntityUpdated ::
  "string option \<Rightarrow> real \<Rightarrow> string list \<Rightarrow> UpdateEvent \<Rightarrow> AppState \<Rightarrow> AppState" where
  "handleEntityUpdated account sampleFactor TILE_HASHES ev s =
     (let s1 = s\<lparr>lastUpdateTimestamp := eventTime ev\<rparr> in
      case tileModel ev of
        None \<Rightarrow> s1
      | Some model \<Rightarrow>
          (case parseTileModel TILE_HASHES model (Some (hashedKeys ev)) of
             Inl e \<Rightarrow> s1
           | Inr tile \<Rightarrow>
               (let s2 = (if Some (address tile) = account
                          then s1\<lparr>metrics := recordOwnTile tile (recordTime ev) (metrics s1)\<rparr>
                          else s1)
                in if address tile = ''0x0''
                   then (if random ev < sampleFactor
                         then s2\<lparr>pendingFlips := pendingFlips s2 @ [(tile_x tile, tile_y tile)],
                                 tilePositions := (tilePositions s2)
                                   \<lparr>pending := pending (tilePositions s2)
                                                 @ [(tile_x tile, tile_y tile)]\<rparr>\<rparr>
                         else s2)
                   else s2)))"

subsection \<open>executeFlips\<close>

text \<open>The outcome of \<open>account.execute\<close>: the transaction hash, or an exception.\<close>

datatype TxResult = TxSuccess string | TxFailure

text \<open>The readings of \<open>Date.now()\<close> of one call: before the submission, for the
  transaction log, for history record number \<open>i\<close>, and for the elapsed time.\<close>

record ExecClock =
  startTime :: int
  logTime :: int
  itemTime :: "nat \<Rightarrow> int"
  endTime :: int

definition successRecords :: "ExecClock \<Rightarrow> nat \<Rightarrow> FlipRecord list" where
  "successRecords clk n =
     map (\<lambda>i. \<lparr>timestamp = itemTime clk i, success = True,
                hist_powerup = Some Powerup_None, hist_powerupValue = Some (Num 0)\<rparr>) [0..<n]"

definition failureRecords :: "ExecClock \<Rightarrow> nat \<Rightarrow> FlipRecord list" where
  "failureRecords clk n =
     map (\<lambda>i. \<lparr>timestamp = itemTime clk i, success = False,
                hist_powerup = None, hist_powerupValue = None\<rparr>) [0..<n]"

definition executeFlips ::
  "string option \<Rightarrow> (int \<times> int) list \<Rightarrow> TxResult \<Rightarrow> ExecClock \<Rightarrow> AppState \<Rightarrow> AppState" where
  "executeFlips account flips result clk s =
     (if account = None \<or> length flips = 0 then s
      else
        (case result of
           TxSuccess h \<Rightarrow>
             (let prev = metrics s; tp = tilePositions s in
              s\<lparr>txLogs := slice_from (txLogs s @ [\<lparr>hash = h, tx_timestamp = logTime clk\<rparr>]) (- 10),
                metrics :=
                  \<lparr>totalFlips = totalFlips prev + length flips,
                   successfulFlips = successfulFlips prev + length flips,
                   failedFlips = failedFlips prev,
                   averageResponseTime =
                     (averageResponseTime prev * real (totalFlips prev)
                        + real_of_int (endTime clk - startTime clk))
                     / real (totalFlips prev + length flips),
                   powerups = powerups prev,
                   flipHistory =
                     slice_from (flipHistory prev @ successRecords clk (length flips)) (- 100)\<rparr>,
                tilePositions :=
                  \<lparr>pending = filter (\<lambda>p. \<not> list_ex (\<lambda>f. fst f = fst p \<and> snd f = snd p) flips)
                               (pending tp),
                   flipped = flipped tp @ flips\<rparr>\<rparr>)
         | TxFailure \<Rightarrow>
             (let prev = metrics s in
              s\<lparr>metrics := prev
                  \<lparr>totalFlips := totalFlips prev + length flips,
                   failedFlips := failedFlips prev + length flips,
                   flipHistory :=
                     slice_from (flipHistory prev @ failureRecords clk (length flips)) (- 100)\<rparr>\<rparr>)))"

subsection \<open>The drain of the pending queue\<close>

text \<open>The \<open>for\<close> loop that cuts the queue into chunks. It does not end when
  \<open>chunkSize\<close> is not positive, so the result is optional.\<close>

partial_function (option) chunkLoop ::
  "'a list \<Rightarrow> int \<Rightarrow> int \<Rightarrow> 'a list list \<Rightarrow> 'a list list option" where
  "chunkLoop queue chunkSize i chunks =
     (if i < int (length queue)
      then chunkLoop queue chunkSize (i + chunkSize) (chunks @ [slice queue i (i + chunkSize)])
      else Some chunks)"

declare chunkLoop.simps [code]

text \<open>The effect on \<open>pendingFlips\<close>: nothing for an empty queue; otherwise the
  timer callback builds the chunks, hands chunk number \<open>index\<close> to \<open>setTimeout\<close>
  with the delay \<open>index * executionDelay\<close>, and empties the queue. The result is
  the list of the scheduled (delay, chunk) pairs and the new state.\<close>

definition drainPending ::
  "int \<Rightarrow> int \<Rightarrow> AppState \<Rightarrow> ((int \<times> (int \<times> int) list) list \<times> AppState) option" where
  "drainPending chunkSize executionDelay s =
     (if length (pendingFlips s) = 0 then Some ([], s)
      else
        (case chunkLoop (pendingFlips s) chunkSize 0 [] of
           None \<Rightarrow> None
         | Some chunks \<Rightarrow>
             Some (map (\<lambda>(index, chunk). (int index * executionDelay, chunk))
                       (enumerate 0 chunks),
                   s\<lparr>pendingFlips := []\<rparr>)))"

subsection \<open>Runs of the component\<close>

text \<open>The feed delivers its events one after the other to the handler.\<close>

definition processUpdates ::
  "string option \<Rightarrow> real \<Rightarrow> string list \<Rightarrow> UpdateEvent list \<Rightarrow> AppState \<Rightarrow> AppState" where
  "processUpdates account sampleFactor TILE_HASHES evs s =
     foldl (\<lambda>st ev. handleEntityUpdated account sampleFactor TILE_HASHES ev st) s evs"

text \<open>The callbacks that write the metrics or the rate ring, each with the settings
  of its closure: an event of the feed, the completion of one \<open>executeFlips\<close> call,
  and a tick of the update-rate interval.\<close>

datatype AppEvent =
    EntityUpdated "string option" real UpdateEvent
  | FlipsExecuted "string option" "(int \<times> int) list" TxResult ExecClock
  | RateTick int

fun step :: "string list \<Rightarrow> AppState \<Rightarrow> AppEvent \<Rightarrow> AppState" where
  "step TILE_HASHES s (EntityUpdated account sampleFactor ev) =
     handleEntityUpdated account sampleFactor TILE_HASHES ev s"
| "step TILE_HASHES s (FlipsExecuted account flips result clk) =
     executeFlips account flips result clk s"
| "step TILE_HASHES s (RateTick now) = updateRateTick now s"

definition run :: "string list \<Rightarrow> AppState \<Rightarrow> AppEvent list \<Rightarrow> AppState" where
  "run TILE_HASHES s evs = foldl (step TILE_HASHES) s evs"

section \<open>Notions used to state the properties\<close>

text \<open>The \<open>n\<close> most recent entries of a sequence that grows at its end.\<close>

definition mostRecent :: "nat \<Rightarrow> 'a list \<Rightarrow> 'a list" where
  "mostRecent n xs = drop (length xs - n) xs"

text \<open>The history records an event appends, in the order of the appends: one success
  record for an update of a tile with the local address, one record per item for a
  chunk that was submitted.\<close>

fun historyAppended :: "string list \<Rightarrow> AppEvent \<Rightarrow> FlipRecord list" where
  "historyAppended TILE_HASHES (EntityUpdated account sampleFactor ev) =
     (case tileModel ev of
        None \<Rightarrow> []
      | Some model \<Rightarrow>
          (case parseTileModel TILE_HASHES model (Some (hashedKeys ev)) of
             Inl e \<Rightarrow> []
           | Inr tile \<Rightarrow>
               if Some (address tile) = account
               then [\<lparr>timestamp = recordTime ev, success = True,
                      hist_powerup = Some (powerup tile),
                      hist_powerupValue = Some (powerupValue tile)\<rparr>]
               else []))"
| "historyAppended TILE_HASHES (FlipsExecuted account flips result clk) =
     (if account = None \<or> flips = [] then []
      else (case result of
              TxSuccess h \<Rightarrow> successRecords clk (length flips)
            | TxFailure \<Rightarrow> failureRecords clk (length flips)))"
| "historyAppended TILE_HASHES (RateTick now) = []"

text \<open>The coordinates of the events of a feed whose decoded tile is unowned.\<close>

definition unownedCoords :: "string list \<Rightarrow> UpdateEvent \<Rightarrow> (int \<times> int) list" where
  "unownedCoords TILE_HASHES ev =
     (case tileModel ev of
        None \<Rightarrow> []
      | Some model \<Rightarrow>
          (case parseTileModel TILE_HASHES model (Some (hashedKeys ev)) of
             Inl e \<Rightarrow> []
           | Inr tile \<Rightarrow> if address tile = ''0x0'' then [(tile_x tile, tile_y tile)] else []))"

text \<open>Cutting a sequence into consecutive pieces of \<open>k\<close> elements, the last one
  possibly shorter: what the chunk loop is compared with.\<close>

fun chunksOf :: "nat \<Rightarrow> 'a list \<Rightarrow> 'a list list" where
  "chunksOf k xs = (if k = 0 \<or> xs = [] then [] else take k xs # chunksOf k (drop k xs))"

section \<open>Auxiliary facts\<close>

subsection \<open>Slices and rings\<close>

lemma slice_from_last: "0 < n \<Longrightarrow> slice_from xs (- int n) = drop (length xs - n) xs"
  by (auto simp: slice_from_def slice_def Let_def max_def nat_diff_distrib')

lemma slice_from_100: "slice_from xs (- 100) = mostRecent 100 xs"
  using slice_from_last [of 100 xs] by (simp add: mostRecent_def)

lemma slice_from_29: "slice_from xs (- 29) = mostRecent 29 xs"
  using slice_from_last [of 29 xs] by (simp add: mostRecent_def)

lemma mostRecent_append: "mostRecent n (mostRecent n xs @ ys) = mostRecent n (xs @ ys)"
proof (cases "length xs \<le> n")
  case True
  then show ?thesis by (simp add: mostRecent_def)
next
  case False
  then have "length ys + length xs - n = length xs + length ys - n" by simp
  with False show ?thesis by (simp add: mostRecent_def add.commute)
qed

lemma mostRecent_snoc: "mostRecent n xs @ [v] = mostRecent (Suc n) (xs @ [v])"
  by (cases "length xs \<le> n") (auto simp: mostRecent_def Suc_diff_le)

lemma mostRecent_length: "length (mostRecent n xs) \<le> n"
  by (simp add: mostRecent_def)

lemma mostRecent_short: "length xs \<le> n \<Longrightarrow> mostRecent n xs = xs"
  by (simp add: mostRecent_def)

lemma mostRecent_tail: "length ys \<le> n \<Longrightarrow> mostRecent (length ys) (mostRecent n (xs @ ys)) = ys"
  by (simp add: mostRecent_def)

subsection \<open>The decoder\<close>

lemma substring_prefix: "substring s 0 m = take (nat m) s"
  by (auto simp: substring_def Let_def min_def max_def)

lemma substring_at: "n < length p \<Longrightarrow> substring p (int n) (int n + 1) = [p ! n]"
proof -
  assume n: "n < length p"
  have "substring p (int n) (int n + 1) = take (Suc 0) (drop n p)"
    using n by (simp add: substring_def Let_def)
  also have "\<dots> = [p ! n]"
    using n by (simp add: take_Suc hd_drop_conv_nth)
  finally show ?thesis .
qed

lemma substring_nibble:
  assumes "4 \<le> length p"
  shows "substring p (int (length p) - 4) (int (length p) - 3) = [p ! (length p - 4)]"
proof -
  have e1: "int (length p) - 4 = int (length p - 4)"
    and e2: "int (length p) - 3 = int (length p - 4) + 1"
    using assms by linarith+
  have "length p - 4 < length p" using assms by linarith
  then show ?thesis unfolding e1 e2 by (rule substring_at)
qed

text \<open>The masked address never spells the sentinel: what is left after the leading
  zeros are dropped does not start with a zero.\<close>

lemma maskAddress_not_sentinel: "maskAddress p \<noteq> ''0x0''"
proof
  define trimmed where "trimmed = dropWhile (\<lambda>c. c = CHR ''0'') (substring_from p 2)"
  assume "maskAddress p = ''0x0''"
  then have t: "take (nat (int (length trimmed) - 4)) trimmed = ''0''"
    by (simp add: maskAddress_def Let_def substring_prefix trimmed_def)
  then have ne: "trimmed \<noteq> []" by auto
  with t have "hd trimmed = CHR ''0''"
    by (cases trimmed; cases "nat (int (length trimmed) - 4)") auto
  moreover have "hd trimmed \<noteq> CHR ''0''"
    using ne hd_dropWhile [of "\<lambda>c. c = CHR ''0''" "substring_from p 2"]
    by (simp add: trimmed_def)
  ultimately show False by simp
qed

lemma digit16_plain:
  assumes "digit16 c = Some v"
  shows "\<not> isWhiteSpace c" and "c \<noteq> CHR ''-''" and "c \<noteq> CHR ''+''" and "v < 16"
  using assms
  by (auto simp: digit16_def isWhiteSpace_def Let_def split: if_splits)

lemma parseInt16_digit:
  assumes "digit16 c = Some v"
  shows "parseInt16 [c] = Num (int v)"
  using assms digit16_plain [OF assms]
  by (simp add: parseInt16_def radix16_def Let_def)

lemma indexOf_absent: "k \<notin> set H \<Longrightarrow> indexOf H k = - 1"
  by (induction H) (auto simp: Let_def)

lemma indexOf_first:
  "i < length H \<Longrightarrow> H ! i = k \<Longrightarrow> k \<notin> set (take i H) \<Longrightarrow> indexOf H k = int i"
proof (induction H arbitrary: i)
  case Nil
  then show ?case by simp
next
  case (Cons h t)
  show ?case
  proof (cases i)
    case 0
    with Cons.prems show ?thesis by simp
  next
    case (Suc j)
    with Cons.prems have j: "j < length t" "t ! j = k" "k \<notin> set (take j t)" "h \<noteq> k"
      by auto
    have "indexOf t k = int j"
      using Cons.IH [OF j(1) j(2) j(3)] .
    with Suc j(4) show ?thesis by (simp add: Let_def)
  qed
qed

lemma js_rem_nonneg: "0 \<le> a \<Longrightarrow> 0 < b \<Longrightarrow> js_rem a b = a mod b"
  by (cases "a = 0") (simp_all add: js_rem_def)

subsection \<open>The history ring along a run\<close>

lemma history_step:
  "flipHistory (metrics (step H s ev))
     = (if historyAppended H ev = [] then flipHistory (metrics s)
        else mostRecent 100 (flipHistory (metrics s) @ historyAppended H ev))"
proof (cases ev)
  case (EntityUpdated account sampleFactor e)
  then show ?thesis
    by (simp add: handleEntityUpdated_def recordOwnTile_def Let_def slice_from_100
          split: option.splits sum.splits)
next
  case (FlipsExecuted account flips result clk)
  then show ?thesis
    by (simp add: executeFlips_def Let_def slice_from_100 successRecords_def failureRecords_def
          split: TxResult.splits)
next
  case (RateTick now)
  then show ?thesis by (simp add: updateRateTick_def Let_def)
qed

lemma history_run:
  "length (flipHistory (metrics s)) \<le> 100 \<Longrightarrow>
   flipHistory (metrics (run H s evs))
     = mostRecent 100 (flipHistory (metrics s) @ concat (map (historyAppended H) evs))"
proof (induction evs arbitrary: s)
  case Nil
  then show ?case by (simp add: run_def mostRecent_short)
next
  case (Cons ev evs)
  have len: "length (flipHistory (metrics (step H s ev))) \<le> 100"
    using Cons.prems by (simp add: history_step mostRecent_length)
  have "flipHistory (metrics (run H s (ev # evs)))
          = flipHistory (metrics (run H (step H s ev) evs))"
    by (simp add: run_def)
  also have "\<dots> = mostRecent 100 (flipHistory (metrics (step H s ev))
                        @ concat (map (historyAppended H) evs))"
    using Cons.IH [OF len] .
  also have "\<dots> = mostRecent 100 (flipHistory (metrics s)
                        @ concat (map (historyAppended H) (ev # evs)))"
    using mostRecent_append [of 100 "flipHistory (metrics s) @ historyAppended H ev"
            "concat (map (historyAppended H) evs)"]
    by (simp add: history_step)
  finally show ?case .
qed

section \<open>The properties of the specification\<close>

subsection \<open>Outcome aggregator\<close>

text \<open>
  C1. The specification expects that one successful chunk of 3 items with an elapsed
  time of 120 ms, from the initial metrics, gives an average response time of 120,
  the mean of the per-item elapsed times. The success branch of \<open>executeFlips\<close> adds
  the elapsed time of the chunk once and divides by the number of items: at this
  input the average is 40, with \<open>totalFlips = 3\<close> and \<open>successfulFlips = 3\<close>.
\<close>

theorem average_response_time_three_items:
  "(let s' = executeFlips (Some ''0xabc'') [(0, 0), (0, 1), (0, 2)] (TxSuccess ''0x1'')
               \<lparr>startTime = 1000, logTime = 1120, itemTime = (\<lambda>i. 1120), endTime = 1120\<rparr>
               (initialState 0)
    in averageResponseTime (metrics s') = 40
     \<and> totalFlips (metrics s') = 3 \<and> successfulFlips (metrics s') = 3)"
  by (simp add: executeFlips_def initialState_def initialMetrics_def)

lemma average_success_step:
  assumes "flips \<noteq> []"
  shows "totalFlips (metrics (executeFlips (Some a) flips (TxSuccess h) clk s))
           = totalFlips (metrics s) + length flips"
    and "averageResponseTime (metrics (executeFlips (Some a) flips (TxSuccess h) clk s))
           * real (totalFlips (metrics (executeFlips (Some a) flips (TxSuccess h) clk s)))
         = averageResponseTime (metrics s) * real (totalFlips (metrics s))
           + real_of_int (endTime clk - startTime clk)"
proof -
  have pos: "real (totalFlips (metrics s) + length flips) \<noteq> 0"
    using assms by (simp del: of_nat_add)
  show "totalFlips (metrics (executeFlips (Some a) flips (TxSuccess h) clk s))
           = totalFlips (metrics s) + length flips"
    using assms by (simp add: executeFlips_def Let_def)
  show "averageResponseTime (metrics (executeFlips (Some a) flips (TxSuccess h) clk s))
           * real (totalFlips (metrics (executeFlips (Some a) flips (TxSuccess h) clk s)))
         = averageResponseTime (metrics s) * real (totalFlips (metrics s))
           + real_of_int (endTime clk - startTime clk)"
    using assms pos by (simp add: executeFlips_def Let_def del: of_nat_add)
qed


text \<open>
  What the success branch computes in general. Along any sequence of successful
  non-empty chunks, the product of the average and \<open>totalFlips\<close> grows by the elapsed
  time of each chunk, counted once per chunk, while \<open>totalFlips\<close> grows by the sizes
  of the chunks: from the initial metrics the average is the sum of the chunks'
  elapsed times divided by the number of items.
\<close>

theorem average_is_chunk_time_per_item:
  assumes "\<forall>c \<in> set cs. fst c \<noteq> []"
  shows "(let s' = run H s (map (\<lambda>(flips, h, clk). FlipsExecuted (Some a) flips (TxSuccess h) clk) cs)
          in totalFlips (metrics s') = totalFlips (metrics s) + (\<Sum>c \<leftarrow> cs. length (fst c))
           \<and> averageResponseTime (metrics s') * real (totalFlips (metrics s'))
               = averageResponseTime (metrics s) * real (totalFlips (metrics s))
                 + (\<Sum>c \<leftarrow> cs. real_of_int (endTime (snd (snd c)) - startTime (snd (snd c)))))"
  using assms
proof (induction cs arbitrary: s)
  case Nil
  then show ?case by (simp add: run_def)
next
  case (Cons c cs)
  obtain flips h clk where c: "c = (flips, h, clk)" by (cases c) auto
  have ne: "flips \<noteq> []" using Cons.prems c by simp
  define s1 where "s1 = executeFlips (Some a) flips (TxSuccess h) clk s"
  define s2 where
    "s2 = run H s1 (map (\<lambda>(flips, h, clk). FlipsExecuted (Some a) flips (TxSuccess h) clk) cs)"
  have rest: "\<forall>c \<in> set cs. fst c \<noteq> []" using Cons.prems by simp
  have run_eq: "run H s (map (\<lambda>(flips, h, clk). FlipsExecuted (Some a) flips (TxSuccess h) clk) (c # cs))
      = s2"
    by (simp add: run_def c s1_def s2_def)
  have t1: "totalFlips (metrics s1) = totalFlips (metrics s) + length flips"
    and a1: "averageResponseTime (metrics s1) * real (totalFlips (metrics s1))
         = averageResponseTime (metrics s) * real (totalFlips (metrics s))
           + real_of_int (endTime clk - startTime clk)"
    unfolding s1_def using average_success_step [OF ne, of a h clk s] by blast+
  have t2: "totalFlips (metrics s2) = totalFlips (metrics s1) + (\<Sum>c \<leftarrow> cs. length (fst c))"
    and a2: "averageResponseTime (metrics s2) * real (totalFlips (metrics s2))
               = averageResponseTime (metrics s1) * real (totalFlips (metrics s1))
                 + (\<Sum>c \<leftarrow> cs. real_of_int (endTime (snd (snd c)) - startTime (snd (snd c))))"
    using Cons.IH [OF rest, of s1] unfolding s2_def Let_def by blast+
  have "totalFlips (metrics s2) = totalFlips (metrics s) + (\<Sum>c \<leftarrow> (c # cs). length (fst c))"
    using t1 t2 by (simp add: c)
  moreover have "averageResponseTime (metrics s2) * real (totalFlips (metrics s2))
               = averageResponseTime (metrics s) * real (totalFlips (metrics s))
                 + (\<Sum>c \<leftarrow> (c # cs). real_of_int (endTime (snd (snd c)) - startTime (snd (snd c))))"
    unfolding a2 a1 by (simp add: c)
  ultimately show ?case
    unfolding run_eq Let_def by (rule conjI)
qed

theorem average_is_chunk_time_per_item_witness:
  "(let s' = run [] (initialState 0)
               [FlipsExecuted (Some ''0xabc'') [(0, 0), (0, 1), (0, 2)] (TxSuccess ''0x1'')
                  \<lparr>startTime = 1000, logTime = 1120, itemTime = (\<lambda>i. 1120), endTime = 1120\<rparr>,
                FlipsExecuted (Some ''0xabc'') [(1, 0)] (TxSuccess ''0x2'')
                  \<lparr>startTime = 2000, logTime = 2040, itemTime = (\<lambda>i. 2040), endTime = 2040\<rparr>]
    in totalFlips (metrics s') = 4 \<and> averageResponseTime (metrics s') = 40)"
proof -
  define cs where "cs =
     [([(0, 0), (0, 1), (0, 2 :: int)] :: (int \<times> int) list, ''0x1'',
        \<lparr>startTime = 1000, logTime = 1120, itemTime = (\<lambda>i. 1120), endTime = 1120\<rparr>),
      ([(1, 0)], ''0x2'',
        \<lparr>startTime = 2000, logTime = 2040, itemTime = (\<lambda>i. 2040), endTime = 2040\<rparr>)]"
  define s' where "s' = run [] (initialState 0)
     (map (\<lambda>(flips, h, clk). FlipsExecuted (Some ''0xabc'') flips (TxSuccess h) clk) cs)"
  have prem: "\<forall>c \<in> set cs. fst c \<noteq> []" by (simp add: cs_def)
  have init: "totalFlips (metrics (initialState 0)) = 0"
    "averageResponseTime (metrics (initialState 0)) = 0"
    by (simp_all add: initialState_def initialMetrics_def)
  have sums: "(\<Sum>c \<leftarrow> cs. length (fst c)) = 4"
    "(\<Sum>c \<leftarrow> cs. real_of_int (endTime (snd (snd c)) - startTime (snd (snd c)))) = 160"
    by (simp_all add: cs_def)
  have both: "totalFlips (metrics s') = 0 + 4
      \<and> averageResponseTime (metrics s') * real (totalFlips (metrics s')) = 0 * real 0 + 160"
    using average_is_chunk_time_per_item [OF prem, of "[]" "initialState 0" "''0xabc''"]
    unfolding Let_def s'_def [symmetric] init sums .
  have t: "totalFlips (metrics s') = 4"
    using both by simp
  have a: "averageResponseTime (metrics s') * real (totalFlips (metrics s')) = 160"
    using conjunct2 [OF both] by simp
  have "averageResponseTime (metrics s') = 40"
    using a unfolding t by simp
  with t show ?thesis
    unfolding Let_def s'_def cs_def by simp
qed

text \<open>
  C7. When the submission of a chunk fails, \<open>totalFlips\<close> and \<open>failedFlips\<close> grow by
  the size of the chunk, one record with \<open>success = false\<close> per item is appended to the
  history (which keeps its 100 most recent records, so the new records are its last
  ones), and the average response time, \<open>successfulFlips\<close>, the powerup statistics,
  the pending and flipped positions, the pending queue and the transaction log are
  unchanged.
\<close>

theorem failed_chunk_accounting:
  assumes "account \<noteq> None" and "flips \<noteq> []"
  shows "let s' = executeFlips account flips TxFailure clk s;
             n = length flips;
             appended = failureRecords clk n
         in totalFlips (metrics s') = totalFlips (metrics s) + n
          \<and> failedFlips (metrics s') = failedFlips (metrics s) + n
          \<and> length appended = n
          \<and> list_all (\<lambda>r. success r = False) appended
          \<and> flipHistory (metrics s') = mostRecent 100 (flipHistory (metrics s) @ appended)
          \<and> (n \<le> 100 \<longrightarrow> mostRecent n (flipHistory (metrics s')) = appended)
          \<and> averageResponseTime (metrics s') = averageResponseTime (metrics s)
          \<and> successfulFlips (metrics s') = successfulFlips (metrics s)
          \<and> powerups (metrics s') = powerups (metrics s)
          \<and> tilePositions s' = tilePositions s
          \<and> pendingFlips s' = pendingFlips s
          \<and> txLogs s' = txLogs s"
proof -
  have len: "length (failureRecords clk (length flips)) = length flips"
    by (simp add: failureRecords_def)
  have tail: "length flips \<le> 100 \<Longrightarrow>
      mostRecent (length flips)
        (mostRecent 100 (flipHistory (metrics s) @ failureRecords clk (length flips)))
      = failureRecords clk (length flips)"
    using mostRecent_tail [of "failureRecords clk (length flips)" 100 "flipHistory (metrics s)"] len
    by simp
  have all_failed: "list_all (\<lambda>r. success r = False) (failureRecords clk (length flips))"
    by (simp add: failureRecords_def list_all_iff)
  show ?thesis
    using assms len tail all_failed
    by (simp add: executeFlips_def Let_def slice_from_100)
qed

theorem failed_chunk_accounting_witness:
  "(let s' = executeFlips (Some ''0xabc'') [(1, 2), (3, 4)] TxFailure
               \<lparr>startTime = 0, logTime = 5, itemTime = (\<lambda>i. 7), endTime = 9\<rparr> (initialState 0)
    in totalFlips (metrics s') = 2 \<and> failedFlips (metrics s') = 2
     \<and> successfulFlips (metrics s') = 0 \<and> averageResponseTime (metrics s') = 0
     \<and> flipHistory (metrics s')
         = [\<lparr>timestamp = 7, success = False, hist_powerup = None, hist_powerupValue = None\<rparr>,
            \<lparr>timestamp = 7, success = False, hist_powerup = None, hist_powerupValue = None\<rparr>]
     \<and> tilePositions s' = \<lparr>pending = [], flipped = []\<rparr>
     \<and> pendingFlips s' = [] \<and> txLogs s' = [])"
  using failed_chunk_accounting [of "Some ''0xabc''" "[(1, 2), (3, 4)]"
          "\<lparr>startTime = 0, logTime = 5, itemTime = (\<lambda>i. 7), endTime = 9\<rparr>" "initialState 0"]
  by (simp add: Let_def initialState_def initialMetrics_def failureRecords_def mostRecent_def)

text \<open>
  C8. Along every run of the callbacks from the initial state, the history holds at
  most 100 records and is exactly the 100 most recently appended records (all of
  them while fewer than 100 were appended), whichever of the three sources appended
  them: the oldest are evicted first.
\<close>

theorem history_ring:
  "flipHistory (metrics (run H (initialState t0) evs))
     = mostRecent 100 (concat (map (historyAppended H) evs))
   \<and> length (flipHistory (metrics (run H (initialState t0) evs))) \<le> 100"
  using history_run [of "initialState t0" H evs]
  by (simp add: initialState_def initialMetrics_def mostRecent_length)

text \<open>
  C10. A call of \<open>executeFlips\<close> without a connected account, or with an empty list of
  coordinates, returns at once and leaves the whole state as it was: metrics,
  positions, pending queue and transaction log; nothing is counted as a failure.
\<close>

theorem execute_flips_dropped:
  "account = None \<or> flips = [] \<Longrightarrow> executeFlips account flips result clk s = s"
  by (auto simp: executeFlips_def)

theorem execute_flips_dropped_witness:
  "executeFlips None [(1, 2)] (TxSuccess ''0x1'')
       \<lparr>startTime = 0, logTime = 5, itemTime = (\<lambda>i. 5), endTime = 5\<rparr> (initialState 0)
     = initialState 0
   \<and> executeFlips (Some ''0xabc'') [] TxFailure
       \<lparr>startTime = 0, logTime = 5, itemTime = (\<lambda>i. 5), endTime = 5\<rparr> (initialState 0)
     = initialState 0"
  using execute_flips_dropped [of None "[(1, 2)]" "TxSuccess ''0x1''"
          "\<lparr>startTime = 0, logTime = 5, itemTime = (\<lambda>i. 5), endTime = 5\<rparr>" "initialState 0"]
        execute_flips_dropped [of "Some ''0xabc''" "[]" TxFailure
          "\<lparr>startTime = 0, logTime = 5, itemTime = (\<lambda>i. 5), endTime = 5\<rparr>" "initialState 0"]
  by simp

subsection \<open>Update-rate monitor\<close>

text \<open>
  C9. A tick of the update-rate interval always sets the reference timestamp to
  \<open>now\<close>. When \<open>now\<close> minus the old reference timestamp is positive, the sample
  \<open>1000 / (now - lastUpdateTimestamp)\<close> is appended and the ring keeps the 30 most
  recent samples; otherwise the ring is unchanged.
\<close>

theorem rate_tick_ring:
  "lastUpdateTimestamp (updateRateTick now s) = now \<and>
   (if 0 < now - lastUpdateTimestamp s
    then entityUpdateRate (updateRateTick now s)
           = mostRecent 30 (entityUpdateRate s @ [1000 / real_of_int (now - lastUpdateTimestamp s)])
         \<and> length (entityUpdateRate (updateRateTick now s)) \<le> 30
    else entityUpdateRate (updateRateTick now s) = entityUpdateRate s)"
  using mostRecent_snoc [of 29 "entityUpdateRate s"]
  by (simp add: updateRateTick_def Let_def slice_from_29 mostRecent_length)

subsection \<open>State decoder\<close>

text \<open>
  C2 (as amended). The decoder has no error for the powerup kind. For every packed
  string other than \<open>0x0\<close> of at least four characters whose character at offset
  \<open>length - 4\<close> is a hexadecimal digit of value \<open>v\<close>, decoding returns a tile whose
  \<open>powerup\<close> field is \<open>v\<close>, whether or not \<open>v\<close> is one of \<open>None = 0\<close> and
  \<open>Multiplier = 1\<close>.
\<close>

theorem powerup_kind_stored_unchecked:
  assumes "model_flipped m = Some p" and "p \<noteq> ''0x0''" and "4 \<le> length p"
    and "digit16 (p ! (length p - 4)) = Some v"
  shows "\<exists>t. parseTileModel H m k = Inr t \<and> powerup t = Num (int v)"
  using assms maskAddress_not_sentinel [of p]
  by (simp add: parseTileModel_def Let_def substring_nibble parseInt16_digit)

theorem powerup_kind_stored_unchecked_witness:
  "\<exists>t. parseTileModel []
          \<lparr>model_flipped = Some ''0x1a2b3'', model_x = Some 0, model_y = Some 0\<rparr> None = Inr t
       \<and> powerup t = Num 10"
  using powerup_kind_stored_unchecked
          [of "\<lparr>model_flipped = Some ''0x1a2b3'', model_x = Some 0, model_y = Some 0\<rparr>"
              "''0x1a2b3''" 10 "[]" None]
  by (simp add: digit16_def)

text \<open>The packed value \<open>0x1a2b3\<close> of the specification's scenario is decoded without
  an error, to a tile of owner \<open>0x1\<close> with the powerup kind 10.\<close>

theorem powerup_kind_out_of_range_decoded:
  "parseTileModel [] \<lparr>model_flipped = Some ''0x1a2b3'', model_x = Some 0, model_y = Some 0\<rparr> None
     = Inr \<lparr>tile_x = 0, tile_y = 0, address = ''0x1'', powerup = Num 10,
            powerupValue = Num 43, team = Num 3\<rparr>"
  by code_simp

text \<open>
  C3 (as amended). The decoder has no error for an unknown key. For a model without
  explicit \<open>x\<close> and \<open>y\<close>: when the key is not in the table, decoding returns a tile
  with the coordinates \<open>(-1, -1)\<close>; when the key is in the table, first at the linear
  index \<open>i\<close>, the coordinates are \<open>(floor (i / 256), i mod 256)\<close>.
\<close>

theorem key_lookup_coordinates:
  assumes "model_flipped m = Some p" and "model_x m = None" and "model_y m = None"
  shows "(k \<notin> set H \<longrightarrow>
            (\<exists>t. parseTileModel H m (Some k) = Inr t \<and> tile_x t = - 1 \<and> tile_y t = - 1))
       \<and> (\<forall>i. i < length H \<and> H ! i = k \<and> k \<notin> set (take i H) \<longrightarrow>
            (\<exists>t. parseTileModel H m (Some k) = Inr t
                 \<and> tile_x t = \<lfloor>real i / 256\<rfloor> \<and> tile_y t = int i mod 256))"
proof (intro conjI impI allI)
  assume "k \<notin> set H"
  then show "\<exists>t. parseTileModel H m (Some k) = Inr t \<and> tile_x t = - 1 \<and> tile_y t = - 1"
    using assms by (simp add: parseTileModel_def Let_def indexOf_absent js_rem_def)
next
  fix i
  assume "i < length H \<and> H ! i = k \<and> k \<notin> set (take i H)"
  then have "indexOf H k = int i" by (simp add: indexOf_first)
  then show "\<exists>t. parseTileModel H m (Some k) = Inr t
                 \<and> tile_x t = \<lfloor>real i / 256\<rfloor> \<and> tile_y t = int i mod 256"
    using assms by (simp add: parseTileModel_def Let_def js_rem_nonneg)
qed

theorem key_lookup_coordinates_witness:
  "(\<exists>t. parseTileModel [''0xaa'']
           \<lparr>model_flipped = Some ''0x0'', model_x = None, model_y = None\<rparr> (Some ''0xbb'') = Inr t
        \<and> tile_x t = - 1 \<and> tile_y t = - 1)
   \<and> (\<exists>t. parseTileModel (replicate 300 ''0xaa'' @ [''0xbb''])
           \<lparr>model_flipped = Some ''0x0'', model_x = None, model_y = None\<rparr> (Some ''0xbb'') = Inr t
        \<and> tile_x t = 1 \<and> tile_y t = 44)"
proof -
  let ?m = "\<lparr>model_flipped = Some ''0x0'', model_x = None, model_y = None\<rparr>"
  let ?H = "replicate 300 ''0xaa'' @ [''0xbb'']"
  note absent = key_lookup_coordinates [of ?m "''0x0''" "''0xbb''" "[''0xaa'']", THEN conjunct1,
      rule_format]
  note present = key_lookup_coordinates [of ?m "''0x0''" "''0xbb''" ?H, THEN conjunct2,
      rule_format, where i = 300]
  have a: "\<exists>t. parseTileModel [''0xaa''] ?m (Some ''0xbb'') = Inr t
             \<and> tile_x t = - 1 \<and> tile_y t = - 1"
    by (rule absent) simp_all
  have "\<exists>t. parseTileModel ?H ?m (Some ''0xbb'') = Inr t
             \<and> tile_x t = \<lfloor>real 300 / 256\<rfloor> \<and> tile_y t = int 300 mod 256"
    by (rule present) (simp_all add: nth_append)
  then have b: "\<exists>t. parseTileModel ?H ?m (Some ''0xbb'') = Inr t
             \<and> tile_x t = 1 \<and> tile_y t = 44"
    by simp
  show ?thesis using a b by (rule conjI)
qed

text \<open>A key that the table does not hold, with no explicit coordinates, is decoded
  without an error.\<close>

theorem unknown_key_decoded:
  "parseTileModel [''0xaa''] \<lparr>model_flipped = Some ''0x0'', model_x = None, model_y = None\<rparr>
       (Some ''0xbb'')
     = Inr \<lparr>tile_x = - 1, tile_y = - 1, address = ''0x0'', powerup = Num 0,
            powerupValue = Num 0, team = Num 0\<rparr>"
  by code_simp

text \<open>
  C4 (as amended). The decoder compares the packed string with the literal \<open>0x0\<close>:
  the decoded owner is the unowned value \<open>0x0\<close> exactly when the packed string is
  \<open>0x0\<close>, and then the powerup kind is \<open>None\<close>, the powerup value 0 and the team 0.
\<close>

theorem sentinel_decodes_unowned:
  assumes "model_flipped m = Some p"
  shows "\<exists>t. parseTileModel H m k = Inr t
           \<and> (address t = ''0x0'' \<longleftrightarrow> p = ''0x0'')
           \<and> (p = ''0x0'' \<longrightarrow>
                powerup t = Powerup_None \<and> powerupValue t = Num 0 \<and> team t = Num 0)"
  using assms maskAddress_not_sentinel [of p]
  by (simp add: parseTileModel_def Let_def)

theorem sentinel_decodes_unowned_witness:
  "\<exists>t. parseTileModel []
          \<lparr>model_flipped = Some ''0x0'', model_x = Some 3, model_y = Some 4\<rparr> None = Inr t
       \<and> address t = ''0x0'' \<and> powerup t = Powerup_None \<and> powerupValue t = Num 0
       \<and> team t = Num 0"
  using sentinel_decodes_unowned
          [of "\<lparr>model_flipped = Some ''0x0'', model_x = Some 3, model_y = Some 4\<rparr>"
              "''0x0''" "[]" None]
  by simp

text \<open>The zero value written \<open>0x00\<close> is not taken for the sentinel: the owner is
  \<open>0x\<close> and the powerup value is \<open>NaN\<close>.\<close>

theorem padded_zero_not_sentinel:
  "parseTileModel [] \<lparr>model_flipped = Some ''0x00'', model_x = Some 0, model_y = Some 0\<rparr> None
     = Inr \<lparr>tile_x = 0, tile_y = 0, address = ''0x'', powerup = Num 0,
            powerupValue = NaN, team = Num 0\<rparr>"
  by code_simp

subsection \<open>Admission filter\<close>

text \<open>
  C6. For a feed of any length whose random draws lie in \<open>[0, 1)\<close>: with
  \<open>sampleFactor = 0\<close> the pending queue is unchanged, and with \<open>sampleFactor = 1\<close> the
  coordinates of every event that decodes to an unowned tile are appended to it, in
  the order of the feed.
\<close>

theorem admission_boundaries:
  assumes "\<forall>ev \<in> set evs. 0 \<le> random ev \<and> random ev < 1"
  shows "pendingFlips (processUpdates account 0 H evs s) = pendingFlips s
       \<and> pendingFlips (processUpdates account 1 H evs s)
           = pendingFlips s @ concat (map (unownedCoords H) evs)"
proof -
  have step: "pendingFlips (handleEntityUpdated account sampleFactor H ev st)
                = pendingFlips st @ (if random ev < sampleFactor then unownedCoords H ev else [])"
    for sampleFactor ev st
    by (simp add: handleEntityUpdated_def unownedCoords_def Let_def
          split: option.splits sum.splits)
  have none: "\<forall>ev \<in> set es. 0 \<le> random ev \<Longrightarrow>
              pendingFlips (processUpdates account 0 H es st) = pendingFlips st" for es st
  proof (induction es arbitrary: st)
    case Nil
    then show ?case by (simp add: processUpdates_def)
  next
    case (Cons e es)
    have "pendingFlips (handleEntityUpdated account 0 H e st) = pendingFlips st"
      using Cons.prems by (simp add: step)
    with Cons show ?case by (simp add: processUpdates_def)
  qed
  have every: "\<forall>ev \<in> set es. random ev < 1 \<Longrightarrow>
               pendingFlips (processUpdates account 1 H es st)
                 = pendingFlips st @ concat (map (unownedCoords H) es)" for es st
  proof (induction es arbitrary: st)
    case Nil
    then show ?case by (simp add: processUpdates_def)
  next
    case (Cons e es)
    have "pendingFlips (handleEntityUpdated account 1 H e st)
            = pendingFlips st @ unownedCoords H e"
      using Cons.prems by (simp add: step)
    with Cons show ?case by (simp add: processUpdates_def)
  qed
  show ?thesis using assms none [of evs s] every [of evs s] by simp
qed

theorem admission_boundaries_witness:
  "pendingFlips (processUpdates (Some ''0xabc'') 0 []
      [\<lparr>hashedKeys = ''0xk1'',
        tileModel = Some \<lparr>model_flipped = Some ''0x0'', model_x = Some 3, model_y = Some 4\<rparr>,
        eventTime = 10, recordTime = 10, random = 0\<rparr>,
       \<lparr>hashedKeys = ''0xk2'',
        tileModel = Some \<lparr>model_flipped = Some ''0x1a2b3'', model_x = Some 5, model_y = Some 6\<rparr>,
        eventTime = 20, recordTime = 20, random = 1 / 2\<rparr>,
       \<lparr>hashedKeys = ''0xk3'',
        tileModel = Some \<lparr>model_flipped = Some ''0x0'', model_x = Some 7, model_y = Some 8\<rparr>,
        eventTime = 30, recordTime = 30, random = 9 / 10\<rparr>]
      (initialState 0)) = []
   \<and> pendingFlips (processUpdates (Some ''0xabc'') 1 []
      [\<lparr>hashedKeys = ''0xk1'',
        tileModel = Some \<lparr>model_flipped = Some ''0x0'', model_x = Some 3, model_y = Some 4\<rparr>,
        eventTime = 10, recordTime = 10, random = 0\<rparr>,
       \<lparr>hashedKeys = ''0xk2'',
        tileModel = Some \<lparr>model_flipped = Some ''0x1a2b3'', model_x = Some 5, model_y = Some 6\<rparr>,
        eventTime = 20, recordTime = 20, random = 1 / 2\<rparr>,
       \<lparr>hashedKeys = ''0xk3'',
        tileModel = Some \<lparr>model_flipped = Some ''0x0'', model_x = Some 7, model_y = Some 8\<rparr>,
        eventTime = 30, recordTime = 30, random = 9 / 10\<rparr>]
      (initialState 0)) = [(3, 4), (7, 8)]"
proof -
  let ?e1 = "\<lparr>hashedKeys = ''0xk1'',
        tileModel = Some \<lparr>model_flipped = Some ''0x0'', model_x = Some 3, model_y = Some 4\<rparr>,
        eventTime = 10, recordTime = 10, random = 0\<rparr>"
  let ?e2 = "\<lparr>hashedKeys = ''0xk2'',
        tileModel = Some \<lparr>model_flipped = Some ''0x1a2b3'', model_x = Some 5, model_y = Some 6\<rparr>,
        eventTime = 20, recordTime = 20, random = 1 / 2\<rparr>"
  let ?e3 = "\<lparr>hashedKeys = ''0xk3'',
        tileModel = Some \<lparr>model_flipped = Some ''0x0'', model_x = Some 7, model_y = Some 8\<rparr>,
        eventTime = 30, recordTime = 30, random = 9 / 10\<rparr>"
  have u1: "unownedCoords [] ?e1 = [(3, 4)]"
    by (simp add: unownedCoords_def parseTileModel_def Let_def)
  have u2: "unownedCoords [] ?e2 = []"
    using maskAddress_not_sentinel [of "''0x1a2b3''"]
    by (simp add: unownedCoords_def parseTileModel_def Let_def)
  have u3: "unownedCoords [] ?e3 = [(7, 8)]"
    by (simp add: unownedCoords_def parseTileModel_def Let_def)
  show ?thesis
    using admission_boundaries [of "[?e1, ?e2, ?e3]" "Some ''0xabc''" "[]" "initialState 0"] u1 u2 u3
    by (simp add: initialState_def)
qed

subsection \<open>Batch dispatch scheduler\<close>

lemma slice_chunk:
  "0 \<le> i \<Longrightarrow> i < int (length q) \<Longrightarrow> 1 \<le> k \<Longrightarrow>
   slice q i (i + k) = take (nat k) (drop (nat i) q)"
  by (auto simp: slice_def Let_def min_def)

lemma chunkLoop_chunksOf:
  "1 \<le> k \<Longrightarrow> 0 \<le> i \<Longrightarrow>
   chunkLoop q k i acc = Some (acc @ chunksOf (nat k) (drop (nat i) q))"
proof (induction "length q - nat i" arbitrary: i acc rule: less_induct)
  case less
  show ?case
  proof (cases "i < int (length q)")
    case False
    then show ?thesis using less.prems
      by (subst chunkLoop.simps) simp
  next
    case True
    have dec: "length q - nat (i + k) < length q - nat i"
      using True less.prems by auto
    have next_i: "0 \<le> i + k" using less.prems by simp
    have ne: "drop (nat i) q \<noteq> []" using True less.prems by auto
    have dd: "nat k + nat i = nat (i + k)"
      using less.prems by simp
    have "chunkLoop q k i acc
            = chunkLoop q k (i + k) (acc @ [slice q i (i + k)])"
      using True by (subst chunkLoop.simps) simp
    also have "\<dots> = Some ((acc @ [slice q i (i + k)]) @ chunksOf (nat k) (drop (nat (i + k)) q))"
      using less.hyps [OF dec less.prems(1) next_i] .
    also have "\<dots> = Some (acc @ chunksOf (nat k) (drop (nat i) q))"
      using ne less.prems True
      by (subst (2) chunksOf.simps) (simp add: slice_chunk dd del: chunksOf.simps)
    finally show ?thesis .
  qed
qed

lemma concat_chunksOf: "0 < k \<Longrightarrow> concat (chunksOf k xs) = xs"
  by (induction k xs rule: chunksOf.induct) simp

lemma size_chunksOf: "list_all (\<lambda>c. length c \<le> k) (chunksOf k xs)"
  by (induction k xs rule: chunksOf.induct) simp

lemma ceiling_step:
  fixes n k :: nat
  assumes "0 < k" "0 < n"
  shows "\<lceil>real n / real k\<rceil> = 1 + \<lceil>real (n - k) / real k\<rceil>"
proof (cases "k \<le> n")
  case True
  then have "real n / real k = real (n - k) / real k + 1"
    using assms by (simp add: field_simps)
  then show ?thesis by simp
next
  case False
  then have "0 < real n / real k" "real n / real k \<le> 1"
    using assms by simp_all
  then have "\<lceil>real n / real k\<rceil> = 1"
    by (simp add: ceiling_eq_iff)
  with False show ?thesis by simp
qed

lemma length_chunksOf:
  "0 < k \<Longrightarrow> int (length (chunksOf k xs)) = \<lceil>real (length xs) / real k\<rceil>"
proof (induction k xs rule: chunksOf.induct)
  case (1 k xs)
  show ?case
  proof (cases "xs = []")
    case True
    then show ?thesis by simp
  next
    case False
    with 1 have "int (length (chunksOf k (drop k xs))) = \<lceil>real (length xs - k) / real k\<rceil>"
      by simp
    moreover have "chunksOf k xs = take k xs # chunksOf k (drop k xs)"
      using False "1.prems" by simp
    ultimately show ?thesis
      using ceiling_step [of k "length xs"] False "1.prems" by simp
  qed
qed

lemma schedule_delays:
  "map fst (map (\<lambda>(index, chunk). (int index * d, chunk)) (enumerate 0 chunks))
     = map (\<lambda>i. int i * d) [0..<length chunks]"
proof -
  have "map fst (zip [0..<length chunks] chunks) = [0..<length chunks]"
    by (simp add: map_fst_zip)
  then have "map ((\<lambda>i. int i * d) \<circ> fst) (zip [0..<length chunks] chunks)
               = map (\<lambda>i. int i * d) [0..<length chunks]"
    by (metis map_map)
  then show ?thesis
    by (simp add: enumerate_eq_zip split_def comp_def)
qed

lemma schedule_chunks:
  "map snd (map (\<lambda>(index, chunk). (int index * d, chunk)) (enumerate 0 chunks)) = chunks"
  by (simp add: enumerate_eq_zip map_snd_zip_take split_def comp_def)

text \<open>
  C5. For a chunk size \<open>k \<ge> 1\<close> (in particular \<open>1 \<le> k \<le> 20\<close>) the drain of a queue of
  \<open>n\<close> candidates returns: it schedules \<open>ceil (n / k)\<close> chunks, each of at most \<open>k\<close>
  items, whose concatenation in dispatch order is the drained queue, chunk number
  \<open>i\<close> with the delay \<open>i * executionDelay\<close>, and empties the queue.
\<close>

theorem drain_chunks:
  assumes "1 \<le> k"
  shows "\<exists>sched. drainPending k d s = Some (sched, s\<lparr>pendingFlips := []\<rparr>)
           \<and> int (length sched) = \<lceil>real (length (pendingFlips s)) / real_of_int k\<rceil>
           \<and> list_all (\<lambda>c. int (length c) \<le> k) (map snd sched)
           \<and> concat (map snd sched) = pendingFlips s
           \<and> map fst sched = map (\<lambda>i. int i * d) [0..<length sched]"
proof (cases "pendingFlips s = []")
  case True
  then show ?thesis by (simp add: drainPending_def)
next
  case False
  define chunks where "chunks = chunksOf (nat k) (pendingFlips s)"
  define sched where
    "sched = map (\<lambda>(index, chunk). (int index * d, chunk)) (enumerate 0 chunks)"
  have kpos: "0 < nat k" using assms by simp
  have loop: "chunkLoop (pendingFlips s) k 0 [] = Some chunks"
    using chunkLoop_chunksOf [OF assms, of 0 "pendingFlips s" "[]"]
    by (simp add: chunks_def)
  have drain: "drainPending k d s = Some (sched, s\<lparr>pendingFlips := []\<rparr>)"
    using False loop by (simp add: drainPending_def sched_def)
  have snd_sched: "map snd sched = chunks"
    unfolding sched_def by (rule schedule_chunks)
  have len_sched: "length sched = length chunks"
    by (simp add: sched_def)
  have fst_sched: "map fst sched = map (\<lambda>i. int i * d) [0..<length sched]"
    unfolding len_sched unfolding sched_def by (rule schedule_delays)
  have count: "int (length chunks) = \<lceil>real (length (pendingFlips s)) / real_of_int k\<rceil>"
    using length_chunksOf [OF kpos, of "pendingFlips s"] assms by (simp add: chunks_def)
  have sizes: "list_all (\<lambda>c. int (length c) \<le> k) chunks"
    using size_chunksOf [of "nat k" "pendingFlips s"] assms
    by (auto simp: chunks_def list_all_iff simp del: chunksOf.simps)
  have cat: "concat chunks = pendingFlips s"
    using concat_chunksOf [OF kpos] by (simp add: chunks_def del: chunksOf.simps)
  show ?thesis
    using drain snd_sched fst_sched len_sched count sizes cat by auto
qed

text \<open>The scenario of 25 candidates with a chunk size of 10 and a delay of 100 ms.\<close>

lemma scenario_25:
  "map_option (\<lambda>r. map (\<lambda>(delay, chunk). (delay, length chunk)) (fst r))
     (drainPending 10 100 ((initialState 0)\<lparr>pendingFlips := map (\<lambda>i. (int i, 0)) [0..<25]\<rparr>))
   = Some [(0, 10), (100, 10), (200, 5)]"
  by (simp add: drainPending_def chunkLoop.simps slice_def enumerate_eq_zip upt_rec_numeral)

theorem drain_chunks_witness:
  "\<exists>sched. drainPending 10 100
               ((initialState 0)\<lparr>pendingFlips := map (\<lambda>i. (int i, 0)) [0..<25]\<rparr>)
             = Some (sched, initialState 0)
         \<and> length sched = 3
         \<and> map (\<lambda>(delay, chunk). (delay, length chunk)) sched = [(0, 10), (100, 10), (200, 5)]
         \<and> concat (map snd sched) = map (\<lambda>i. (int i, 0)) [0..<25]"
proof -
  let ?s = "(initialState 0)\<lparr>pendingFlips := map (\<lambda>i. (int i, 0)) [0..<25]\<rparr>"
  have k: "(1 :: int) \<le> 10" by simp
  have "\<exists>sched. drainPending 10 100 ?s = Some (sched, ?s\<lparr>pendingFlips := []\<rparr>)
          \<and> int (length sched) = \<lceil>real (length (pendingFlips ?s)) / real_of_int 10\<rceil>
          \<and> concat (map snd sched) = pendingFlips ?s"
    using drain_chunks [OF k, of 100 ?s] by blast
  then show ?thesis
  proof (elim exE conjE)
    fix sched
    assume d: "drainPending 10 100 ?s = Some (sched, ?s\<lparr>pendingFlips := []\<rparr>)"
      and n: "int (length sched) = \<lceil>real (length (pendingFlips ?s)) / real_of_int 10\<rceil>"
      and c: "concat (map snd sched) = pendingFlips ?s"
    have d': "drainPending 10 100 ?s = Some (sched, initialState 0)"
      using d by (simp add: initialState_def)
    have n': "length sched = 3" using n by simp
    have z: "map (\<lambda>(delay, chunk). (delay, length chunk)) sched
               = [(0, 10), (100, 10), (200, 5)]"
      using scenario_25 d by simp
    have c': "concat (map snd sched) = map (\<lambda>i. (int i, 0)) [0..<25]"
      using c by simp
    show ?thesis
      by (rule exI [of _ sched]) (intro conjI d' n' z c')
  qed
qed

end
